theory Spec2Isabelle
  imports Main
begin

section \<open>The remote job service as the client sees it\<close>

text \<open>
  The six scripts talk to one remote prediction service through the \<open>requests\<close> library:
  a POST that creates a prediction, GETs of its status, and GETs of the output URIs.
  A call of \<open>requests.get\<close> or \<open>requests.post\<close> either raises a
  \<open>RequestException\<close> (connection refused, time-out) or returns a response with a
  status code and a body. The answers of the service are inputs of the model; what the
  scripts do is recorded as a list of events.

  Modelling boundary: bodies are JSON objects; the body of a creation response carries
  the field \<open>id\<close>; file-system calls succeed. Fields that the code reads with
  \<open>.get\<close> or that may be missing in a status document are optional in the model.
\<close>

type_synonym uri = string

datatype 'b http = Transport_failure | Response nat 'b

text \<open>The exceptions that occur in the modelled code, as they appear in messages.\<close>

datatype exn = ConnectionError | HTTPError nat | KeyError | IndexError

text \<open>\<open>Response.raise_for_status()\<close> raises \<open>HTTPError\<close> for the codes 400..599.\<close>

definition raise_for_status :: "nat \<Rightarrow> bool" where
  "raise_for_status code \<longleftrightarrow> 400 \<le> code \<and> code < 600"

text \<open>The body of the answer to the POST: the raw text and its field \<open>id\<close>.\<close>

record post_body =
  body_id :: string
  body_text :: string

text \<open>
  The JSON document of a status query; \<open>None\<close> is a missing key (for \<open>output\<close>
  also a JSON null: both are falsy for \<open>data.get('output', [])\<close> and both make
  \<open>data['output'][0]\<close> raise).
\<close>

record prediction =
  status :: "string option"
  output_urls :: "uri list option"
  error :: "string option"

text \<open>
  The payload of a submission; the other fields of \<open>payload['input']\<close> and the model
  version are the same constants in every script.
\<close>

record payload =
  prompt :: string
  width :: nat
  height :: nat

text \<open>
  One job of the service: the answer to the POST, the answer to the \<open>n\<close>-th status
  query (counted from 0), the answer to the GET of an output URI, and the time stamp
  that \<open>datetime.now().strftime\<close> gives at the \<open>i\<close>-th download.
\<close>

record job =
  created :: "post_body http"
  polls :: "nat \<Rightarrow> prediction http"
  files :: "uri \<Rightarrow> string http"
  clock :: "nat \<Rightarrow> string"

datatype message =
    Started_generation string
  | Prediction_id string
  | Api_request_failed exn
  | No_output_urls string
  | Generation_failed string string
  | Status_line string "string option" nat nat
  | Unknown_status string "string option"
  | Polling_error string exn
  | Timeout_waiting string
  | Downloaded string
  | Download_failed uri exn
  | Started_icon string
  | Icon_saved string string
  | Failed_to_generate string string
  | Error_checking_status nat
  | Error_generating string
  | Fintech_generating string
  | Fintech_saved string
  | Fintech_failed string
  | Fintech_timeout
  | Fintech_error

datatype event =
    Post payload
  | Get_status string
  | Get_url uri
  | Sleep nat
  | Makedirs string
  | Write string string
  | Print message

fun is_status_query :: "event \<Rightarrow> bool" where
  "is_status_query (Get_status _) = True"
| "is_status_query _ = False"

text \<open>
  Observations on a trace: the number of status queries, the payloads posted, the output
  URIs requested and the files written, each in order of occurrence.
\<close>

definition status_queries :: "event list \<Rightarrow> nat" where
  "status_queries evs = length (filter is_status_query evs)"

fun posted :: "event list \<Rightarrow> payload list" where
  "posted [] = []"
| "posted (Post p # evs) = p # posted evs"
| "posted (_ # evs) = posted evs"

fun requested :: "event list \<Rightarrow> uri list" where
  "requested [] = []"
| "requested (Get_url u # evs) = u # requested evs"
| "requested (_ # evs) = requested evs"

fun written :: "event list \<Rightarrow> string list" where
  "written [] = []"
| "written (Write fp content # evs) = fp # written evs"
| "written (_ # evs) = written evs"

text \<open>Events that happen before the rest of a computation.\<close>

fun after :: "event list \<Rightarrow> event list \<times> 'a \<Rightarrow> event list \<times> 'a" where
  "after pre (evs, r) = (pre @ evs, r)"

text \<open>\<open>data.get('error', 'Unknown error')\<close>\<close>

definition get_error :: "prediction \<Rightarrow> string" where
  "get_error d = (case error d of None \<Rightarrow> ''Unknown error'' | Some e \<Rightarrow> e)"

section \<open>The generator classes\<close>

text \<open>
  \<open>PremiumTradingAssetsGenerator\<close> (generate_premium_trading_assets.py),
  \<open>PremiumIconGenerator\<close> (generate_premium_app_icon.py) and
  \<open>StunningIconGenerator\<close> (generate_stunning_trading_icon.py) share the methods
  \<open>_make_request\<close>, \<open>_poll_prediction\<close> and \<open>_download_assets\<close>. They differ in
  the output directory, in the file name of a download, and in which progress lines
  they print.
\<close>

datatype generator = PremiumTradingAssetsGenerator | PremiumIconGenerator | StunningIconGenerator

fun output_dir :: "generator \<Rightarrow> string" where
  "output_dir PremiumTradingAssetsGenerator = ''generated_trading_assets''"
| "output_dir PremiumIconGenerator = ''generated_icons''"
| "output_dir StunningIconGenerator = ''stunning_icons''"

text \<open>Decimal digits of a natural number, as \<open>str\<close> prints them.\<close>

fun str_nat :: "nat \<Rightarrow> string" where
  "str_nat n = (if n < 10 then [''0123456789'' ! n] else str_nat (n div 10) @ [''0123456789'' ! (n mod 10)])"

declare str_nat.simps [simp del]

text \<open>\<open>os.path.join(d, f)\<close> for a directory name without trailing slash.\<close>

definition path_join :: "string \<Rightarrow> string \<Rightarrow> string" where
  "path_join d f = (case f of CHR ''/'' # _ \<Rightarrow> f | _ \<Rightarrow> d @ ''/'' @ f)"

fun filename :: "generator \<Rightarrow> string \<Rightarrow> string \<Rightarrow> nat \<Rightarrow> string" where
  "filename PremiumTradingAssetsGenerator prefix ts i = prefix @ ''_'' @ ts @ ''_'' @ str_nat (i + 1) @ ''.png''"
| "filename _ prefix ts i = prefix @ ''_'' @ ts @ ''.png''"

definition filepath :: "generator \<Rightarrow> string \<Rightarrow> string \<Rightarrow> nat \<Rightarrow> string" where
  "filepath g prefix ts i = path_join (output_dir g) (filename g prefix ts i)"

subsection \<open>\<open>_download_assets\<close>\<close>

text \<open>
  The loop \<open>for i, url in enumerate(urls)\<close>; the \<open>try\<close> is inside the loop body, so
  an exception of one download is printed and the loop goes on with the next URL.
\<close>

fun download_loop :: "generator \<Rightarrow> job \<Rightarrow> string \<Rightarrow> nat \<Rightarrow> uri list \<Rightarrow> event list \<times> string list" where
  "download_loop g j prefix i [] = ([], [])"
| "download_loop g j prefix i (url # urls) =
    (case files j url of
       Transport_failure \<Rightarrow>
         after [Get_url url, Print (Download_failed url ConnectionError)]
           (download_loop g j prefix (Suc i) urls)
     | Response code content \<Rightarrow>
         if raise_for_status code then
           after [Get_url url, Print (Download_failed url (HTTPError code))]
             (download_loop g j prefix (Suc i) urls)
         else
           (let fp = filepath g prefix (clock j i) i;
                (evs, downloaded_files) = download_loop g j prefix (Suc i) urls
            in ([Get_url url, Write fp content, Print (Downloaded fp)] @ evs, fp # downloaded_files)))"

definition download_assets :: "generator \<Rightarrow> job \<Rightarrow> uri list \<Rightarrow> string \<Rightarrow> event list \<times> string list" where
  "download_assets g j urls prefix = download_loop g j prefix 0 urls"

subsection \<open>\<open>_poll_prediction\<close>\<close>

text \<open>
  The progress line of a pending attempt: the stunning-icon generator prints it on every
  fifth attempt only.
\<close>

fun status_line :: "generator \<Rightarrow> string \<Rightarrow> string option \<Rightarrow> nat \<Rightarrow> nat \<Rightarrow> event list" where
  "status_line StunningIconGenerator prefix st attempt max_attempts =
     (if attempt mod 5 = 0 then [Print (Status_line prefix st (attempt + 1) max_attempts)] else [])"
| "status_line _ prefix st attempt max_attempts = [Print (Status_line prefix st (attempt + 1) max_attempts)]"

text \<open>
  The loop \<open>for attempt in range(max_attempts)\<close> runs over the list of attempt numbers;
  when the list is used up the method prints the time-out line and returns \<open>None\<close>.
\<close>

fun poll_attempts ::
  "generator \<Rightarrow> job \<Rightarrow> string \<Rightarrow> string \<Rightarrow> nat \<Rightarrow> nat list \<Rightarrow> event list \<times> string list option" where
  "poll_attempts g j pid prefix max_attempts [] = ([Print (Timeout_waiting prefix)], None)"
| "poll_attempts g j pid prefix max_attempts (attempt # rest) =
    (case polls j attempt of
       Transport_failure \<Rightarrow>
         after [Get_status pid, Print (Polling_error prefix ConnectionError), Sleep 2]
           (poll_attempts g j pid prefix max_attempts rest)
     | Response code d \<Rightarrow>
         if raise_for_status code then
           after [Get_status pid, Print (Polling_error prefix (HTTPError code)), Sleep 2]
             (poll_attempts g j pid prefix max_attempts rest)
         else if status d = Some ''succeeded'' then
           (case output_urls d of
              Some (url # urls) \<Rightarrow>
                (let (evs, downloaded_files) = download_assets g j (url # urls) prefix
                 in (Get_status pid # evs, Some downloaded_files))
            | _ \<Rightarrow> ([Get_status pid, Print (No_output_urls prefix)], None))
         else if status d = Some ''failed'' then
           ([Get_status pid, Print (Generation_failed prefix (get_error d))], None)
         else if status d = Some ''starting'' \<or> status d = Some ''processing'' then
           after (Get_status pid # status_line g prefix (status d) attempt max_attempts @ [Sleep 2])
             (poll_attempts g j pid prefix max_attempts rest)
         else
           after [Get_status pid, Print (Unknown_status prefix (status d)), Sleep 2]
             (poll_attempts g j pid prefix max_attempts rest))"

definition poll_prediction ::
  "generator \<Rightarrow> job \<Rightarrow> string \<Rightarrow> string \<Rightarrow> nat \<Rightarrow> event list \<times> string list option" where
  "poll_prediction g j pid prefix max_attempts =
     poll_attempts g j pid prefix max_attempts [0..<max_attempts]"

subsection \<open>\<open>_make_request\<close>\<close>

text \<open>
  The first lines of \<open>_make_request\<close>: the POST, \<open>raise_for_status\<close> and the read of
  the prediction id. The result is the id, or the \<open>RequestException\<close> that the
  \<open>except\<close> clause of \<open>_make_request\<close> catches.
\<close>

definition submit :: "post_body http \<Rightarrow> exn + string" where
  "submit r = (case r of
       Transport_failure \<Rightarrow> Inl ConnectionError
     | Response code b \<Rightarrow> if raise_for_status code then Inl (HTTPError code) else Inr (body_id b))"

fun started_lines :: "generator \<Rightarrow> string \<Rightarrow> string \<Rightarrow> event list" where
  "started_lines StunningIconGenerator prefix pid = [Print (Prediction_id pid)]"
| "started_lines _ prefix pid = [Print (Started_generation prefix), Print (Prediction_id pid)]"

definition make_request :: "generator \<Rightarrow> job \<Rightarrow> payload \<Rightarrow> string \<Rightarrow> event list \<times> string list option" where
  "make_request g j pl prefix = (case submit (created j) of
       Inl e \<Rightarrow> ([Post pl, Print (Api_request_failed e)], None)
     | Inr pid \<Rightarrow> after (Post pl # started_lines g prefix pid) (poll_prediction g j pid prefix 60))"

section \<open>The icon scripts with an open-ended poll\<close>

text \<open>
  \<open>generate_ai_icon\<close> (create_ai_trading_icons.py) and \<open>generate_professional_icon\<close>
  (create_professional_fintech_icon.py) are the same function up to the directory of the
  saved file. The whole body is inside one \<open>try\<close> whose \<open>except Exception\<close> prints
  a line; every path that does not return the file name ends in \<open>return None\<close>.
\<close>

definition icon_payload :: "string \<Rightarrow> payload" where
  "icon_payload p = \<lparr>prompt = p, width = 1024, height = 1024\<rparr>"

text \<open>
  The POST and the test \<open>response.status_code == 201\<close>: the prediction id, or the
  reason why there is none (an exception, or silently any other status code).
\<close>

definition icon_submit :: "post_body http \<Rightarrow> exn option + string" where
  "icon_submit r = (case r of
       Transport_failure \<Rightarrow> Inl (Some ConnectionError)
     | Response code b \<Rightarrow> if code = 201 then Inr (body_id b) else Inl None)"

text \<open>The branch \<open>data['status'] == 'succeeded'\<close>: first output URI, download, save.\<close>

definition save_icon :: "string \<Rightarrow> job \<Rightarrow> string \<Rightarrow> prediction \<Rightarrow> event list \<times> string option" where
  "save_icon dir j concept_name d = (case output_urls d of
       Some (image_url # _) \<Rightarrow>
         (case files j image_url of
            Transport_failure \<Rightarrow> ([Get_url image_url, Print (Error_generating concept_name)], None)
          | Response code content \<Rightarrow>
              if code = 200 then
                (let fn = dir @ ''/'' @ concept_name @ ''_'' @ clock j 0 @ ''.png''
                 in ([Get_url image_url, Makedirs dir, Write fn content, Print (Icon_saved concept_name fn)],
                     Some fn))
              else ([Get_url image_url], None))
     | _ \<Rightarrow> ([Print (Error_generating concept_name)], None))"

text \<open>
  The loop \<open>while True\<close>: \<open>n\<close> is the number of status queries made so far and
  \<open>acc\<close> the events so far. The loop has no attempt counter; it is left by a
  \<open>return\<close>, a \<open>break\<close> or an exception only, so the model is a partial function and
  \<open>None\<close> at the outer level means that the call does not return.
\<close>

partial_function (option) icon_poll ::
  "string \<Rightarrow> job \<Rightarrow> string \<Rightarrow> string \<Rightarrow> nat \<Rightarrow> event list \<Rightarrow> (event list \<times> string option) option" where
  "icon_poll dir j concept_name pid n acc =
    (case polls j n of
       Transport_failure \<Rightarrow> Some (acc @ [Get_status pid, Print (Error_generating concept_name)], None)
     | Response code d \<Rightarrow>
         if code = 200 then
           (case status d of
              None \<Rightarrow> Some (acc @ [Get_status pid, Print (Error_generating concept_name)], None)
            | Some s \<Rightarrow>
                if s = ''succeeded'' then
                  Some (after (acc @ [Get_status pid]) (save_icon dir j concept_name d))
                else if s = ''failed'' then
                  Some (acc @ [Get_status pid, Print (Failed_to_generate concept_name (get_error d))], None)
                else icon_poll dir j concept_name pid (Suc n) (acc @ [Get_status pid, Sleep 2]))
         else Some (acc @ [Get_status pid, Print (Error_checking_status code)], None))"

definition generate_icon :: "string \<Rightarrow> job \<Rightarrow> string \<Rightarrow> string \<Rightarrow> (event list \<times> string option) option" where
  "generate_icon dir j concept_name p = (case icon_submit (created j) of
       Inl (Some e) \<Rightarrow> Some ([Post (icon_payload p), Print (Error_generating concept_name)], None)
     | Inl None \<Rightarrow> Some ([Post (icon_payload p)], None)
     | Inr pid \<Rightarrow>
         icon_poll dir j concept_name pid 0 [Post (icon_payload p), Print (Started_icon concept_name)])"

definition generate_ai_icon :: "job \<Rightarrow> string \<Rightarrow> string \<Rightarrow> (event list \<times> string option) option" where
  "generate_ai_icon = generate_icon ''ai_trading_icons''"

definition generate_professional_icon :: "job \<Rightarrow> string \<Rightarrow> string \<Rightarrow> (event list \<times> string option) option" where
  "generate_professional_icon = generate_icon ''professional_fintech_icons''"

text \<open>
  The loop of \<open>main\<close> over \<open>variations.items()\<close>: a truthy result is appended to
  \<open>generated_icons\<close>, then the script sleeps one second. The service is a function
  from the concept name to the job it runs for that request. The banner lines of
  \<open>main\<close> are not part of the trace.
\<close>

fun icon_main_loop ::
  "string \<Rightarrow> (string \<Rightarrow> job) \<Rightarrow> (string \<times> string) list \<Rightarrow> event list \<Rightarrow> string list \<Rightarrow>
     (event list \<times> string list) option" where
  "icon_main_loop dir w [] evs generated_icons = Some (evs, generated_icons)"
| "icon_main_loop dir w ((concept, p) # rest) evs generated_icons =
    (case generate_icon dir (w concept) concept p of
       None \<Rightarrow> None
     | Some (evs', result) \<Rightarrow>
         icon_main_loop dir w rest (evs @ evs' @ [Sleep 1])
           (case result of
              Some f \<Rightarrow> if f \<noteq> [] then generated_icons @ [f] else generated_icons
            | None \<Rightarrow> generated_icons))"

definition icon_main :: "string \<Rightarrow> (string \<Rightarrow> job) \<Rightarrow> (string \<times> string) list \<Rightarrow> (event list \<times> string list) option" where
  "icon_main dir w variations = icon_main_loop dir w variations [] []"

section \<open>The fintech icon script\<close>

text \<open>
  \<open>generate_fintech_icon\<close> (create_fintech_mobile_icon.py): a bounded loop
  \<open>for attempt in range(60)\<close> inside one \<open>try\<close>; the status code of a status
  answer and of the download is not looked at.
\<close>

definition fintech_payload :: "string \<Rightarrow> payload" where
  "fintech_payload p = \<lparr>prompt = p, width = 512, height = 512\<rparr>"

fun fintech_attempts :: "job \<Rightarrow> string \<Rightarrow> string \<Rightarrow> nat list \<Rightarrow> event list \<times> string option" where
  "fintech_attempts j concept_name pid [] = ([Print Fintech_timeout], None)"
| "fintech_attempts j concept_name pid (attempt # rest) =
    (case polls j attempt of
       Transport_failure \<Rightarrow> ([Get_status pid, Print Fintech_error], None)
     | Response code d \<Rightarrow>
         (case status d of
            None \<Rightarrow> ([Get_status pid, Print Fintech_error], None)
          | Some s \<Rightarrow>
              if s = ''succeeded'' then
                (case output_urls d of
                   Some (url # _) \<Rightarrow>
                     (case files j url of
                        Transport_failure \<Rightarrow> ([Get_status pid, Get_url url, Print Fintech_error], None)
                      | Response c content \<Rightarrow>
                          (let fn = ''fintech_icons/'' @ concept_name @ ''_'' @ clock j 0 @ ''.png''
                           in ([Get_status pid, Get_url url, Makedirs ''fintech_icons'', Write fn content,
                                Print (Fintech_saved fn)], Some fn)))
                 | _ \<Rightarrow> ([Get_status pid, Print Fintech_error], None))
              else if s = ''failed'' then
                ([Get_status pid, Print (Fintech_failed (get_error d))], None)
              else after [Get_status pid, Sleep 2] (fintech_attempts j concept_name pid rest)))"

definition generate_fintech_icon :: "job \<Rightarrow> string \<Rightarrow> string \<Rightarrow> event list \<times> string option" where
  "generate_fintech_icon j concept_name p = (case submit (created j) of
       Inl e \<Rightarrow> ([Post (fintech_payload p), Print Fintech_error], None)
     | Inr pid \<Rightarrow>
         after [Post (fintech_payload p), Print (Fintech_generating concept_name), Print (Prediction_id pid)]
           (fintech_attempts j concept_name pid [0..<60]))"

fun fintech_main_loop ::
  "(string \<Rightarrow> job) \<Rightarrow> (string \<times> string) list \<Rightarrow> event list \<Rightarrow> string list \<Rightarrow> event list \<times> string list" where
  "fintech_main_loop w [] evs results = (evs, results)"
| "fintech_main_loop w ((name, p) # rest) evs results =
    (let (evs', result) = generate_fintech_icon (w name) name p
     in fintech_main_loop w rest (evs @ evs' @ [Sleep 3])
          (case result of
             Some f \<Rightarrow> if f \<noteq> [] then results @ [f] else results
           | None \<Rightarrow> results))"

definition fintech_main :: "(string \<Rightarrow> job) \<Rightarrow> (string \<times> string) list \<Rightarrow> event list \<times> string list" where
  "fintech_main w concepts = fintech_main_loop w concepts [] []"

section \<open>Prompt selection and the batch of \<open>PremiumIconGenerator\<close>\<close>

text \<open>
  A dictionary literal is an association list; \<open>d.get(k, dflt)\<close> and \<open>d[k]\<close>.
\<close>

definition dict_get :: "('k \<times> 'v) list \<Rightarrow> 'k \<Rightarrow> 'v \<Rightarrow> 'v" where
  "dict_get d k dflt = (case map_of d k of Some v \<Rightarrow> v | None \<Rightarrow> dflt)"

definition dict_item :: "('k \<times> 'v) list \<Rightarrow> 'k \<Rightarrow> exn + 'v" where
  "dict_item d k = (case map_of d k of Some v \<Rightarrow> Inr v | None \<Rightarrow> Inl KeyError)"

text \<open>
  \<open>xs[k]\<close> for a Python list and an integer \<open>k\<close>: the indices \<open>-len(xs)\<close> to
  \<open>len(xs) - 1\<close> are valid, a negative one counts from the end, any other raises
  \<open>IndexError\<close>.
\<close>

definition list_item :: "'a list \<Rightarrow> int \<Rightarrow> exn + 'a" where
  "list_item xs k =
     (if 0 \<le> k \<and> k < int (length xs) then Inr (xs ! nat k)
      else if k < 0 \<and> - int (length xs) \<le> k then Inr (xs ! nat (int (length xs) + k))
      else Inl IndexError)"

text \<open>The table \<open>prompts\<close> of \<open>generate_ai_analytics_icon\<close>.\<close>

definition prompts :: "(string \<times> string list) list" where
  "prompts =
    [(''modern'',
      [''3D isometric trading chart icon, ascending candlestick pattern, vibrant teal gradient (#00D4AA), glossy finish, professional fintech style, floating elements, clean white background, mobile app icon, ultra detailed, 4K quality'',
       ''Minimalist bull market symbol, elegant upward arrow with data points, teal green (#00D4AA) to emerald gradient, sleek modern design, premium fintech branding, white background, mobile optimized icon'',
       ''Geometric crystal-style analytics cube, faceted surfaces, teal (#00D4AA) gradient lighting, floating financial data streams, modern luxury design, white background, professional mobile app icon'']),
     (''luxury'',
      [''Premium golden bull silhouette with teal accents (#00D4AA), sophisticated gradient, elegant financial symbol, luxury trading app icon, minimal design, white background, high-end fintech branding'',
       ''Luxury diamond-cut chart icon, multifaceted crystalline structure, gold and teal (#00D4AA) gradient, premium reflection effects, sophisticated trading symbol, white background, mobile app icon'',
       ''Elegant rising arrow with golden particles, teal (#00D4AA) energy trail, luxury fintech design, premium gradient effects, sophisticated trading icon, clean white background'']),
     (''tech'',
      [''Futuristic holographic trading interface, neon teal (#00D4AA) glow, floating data visualizations, sci-fi financial dashboard, high-tech design, dark to light gradient background, mobile app icon'',
       ''Digital DNA helix made of financial data, glowing teal (#00D4AA) elements, futuristic trading symbol, tech-forward design, gradient background, professional mobile icon'',
       ''Cyber grid with rising profit arrow, electric teal (#00D4AA) energy, digital matrix style, futuristic trading icon, high-tech gradient background, mobile optimized''])]"

text \<open>
  Lines 46 and 47 of generate_premium_app_icon.py:
  \<^verbatim>\<open>selected_prompts = prompts.get(style, prompts["modern"])\<close>
  \<^verbatim>\<open>prompt = selected_prompts[variation - 1] if variation <= len(selected_prompts) else selected_prompts[0]\<close>
\<close>

definition select_prompt :: "string \<Rightarrow> int \<Rightarrow> exn + string" where
  "select_prompt style variation =
     (case dict_item prompts ''modern'' of
        Inl e \<Rightarrow> Inl e
      | Inr dflt \<Rightarrow>
          (let selected_prompts = dict_get prompts style dflt
           in if variation \<le> int (length selected_prompts)
              then list_item selected_prompts (variation - 1)
              else list_item selected_prompts 0))"

definition str_int :: "int \<Rightarrow> string" where
  "str_int i = (if i < 0 then ''-'' @ str_nat (nat (- i)) else str_nat (nat i))"

definition analytics_prefix :: "string \<Rightarrow> int \<Rightarrow> string" where
  "analytics_prefix style variation = ''ai_analytics_icon_'' @ style @ ''_v'' @ str_int variation"

text \<open>
  \<open>generate_ai_analytics_icon\<close>: an exception of the prompt selection is raised before
  any request is made and is caught nowhere. The service is a function from the file
  name prefix of a request to its job.
\<close>

definition generate_ai_analytics_icon ::
  "(string \<Rightarrow> job) \<Rightarrow> string \<Rightarrow> int \<Rightarrow> exn + event list \<times> string list option" where
  "generate_ai_analytics_icon w style variation =
     (case select_prompt style variation of
        Inl e \<Rightarrow> Inl e
      | Inr p \<Rightarrow>
          Inr (make_request PremiumIconGenerator (w (analytics_prefix style variation))
                 \<lparr>prompt = p, width = 512, height = 512\<rparr> (analytics_prefix style variation)))"

text \<open>
  One \<open>for i in range(...)\<close> loop of \<open>generate_multiple_variations\<close>: a truthy result
  extends \<open>icons_generated\<close>, then the method sleeps one second.
\<close>

fun variations_loop ::
  "(string \<Rightarrow> job) \<Rightarrow> string \<Rightarrow> int list \<Rightarrow> event list \<times> string list \<Rightarrow> exn + event list \<times> string list" where
  "variations_loop w style [] acc = Inr acc"
| "variations_loop w style (i # rest) (evs, icons_generated) =
    (case generate_ai_analytics_icon w style i of
       Inl e \<Rightarrow> Inl e
     | Inr (evs', result) \<Rightarrow>
         variations_loop w style rest
           (evs @ evs' @ [Sleep 1],
            (case result of Some fs \<Rightarrow> icons_generated @ fs | None \<Rightarrow> icons_generated)))"

definition generate_multiple_variations :: "(string \<Rightarrow> job) \<Rightarrow> exn + event list \<times> string list" where
  "generate_multiple_variations w =
     (case variations_loop w ''modern'' [1, 2, 3] ([], []) of
        Inl e \<Rightarrow> Inl e
      | Inr acc1 \<Rightarrow>
          (case variations_loop w ''luxury'' [1, 2] acc1 of
             Inl e \<Rightarrow> Inl e
           | Inr acc2 \<Rightarrow> variations_loop w ''tech'' [1, 2] acc2))"

text \<open>
  The prompt of \<open>generate_trading_button\<close> (generate_premium_trading_assets.py):
  \<^verbatim>\<open>prompts.get(style, prompts["glassmorphic"])\<close> over four f-strings.
\<close>

definition button_prompts :: "string \<Rightarrow> (string \<times> string) list" where
  "button_prompts color_scheme =
    [(''glassmorphic'', ''Ultra-modern glassmorphic trading button with '' @ color_scheme @ '' accent, transparent background, subtle glow effect, professional fintech design, 3D depth, clean typography '' @ [CHR 0x27] @ ''BUY'' @ [CHR 0x27] @ '', high-end mobile app UI, 4K resolution''),
     (''neomorphic'', ''Sleek neomorphic trading button with '' @ color_scheme @ '' gradient, soft shadows, embossed effect, premium fintech aesthetic, '' @ [CHR 0x27] @ ''SELL'' @ [CHR 0x27] @ '' text, mobile-first design, ultra-clean''),
     (''gradient'', ''Premium gradient trading button with '' @ color_scheme @ '' to gold transition, metallic finish, luxury fintech design, '' @ [CHR 0x27] @ ''TRADE'' @ [CHR 0x27] @ '' text, professional mobile app interface''),
     (''holographic'', ''Futuristic holographic trading button with '' @ color_scheme @ '' iridescent effect, digital glow, sci-fi fintech design, '' @ [CHR 0x27] @ ''INVEST'' @ [CHR 0x27] @ '' text, next-gen mobile UI'')]"

definition button_prompt :: "string \<Rightarrow> string \<Rightarrow> exn + string" where
  "button_prompt style color_scheme =
     (case dict_item (button_prompts color_scheme) ''glassmorphic'' of
        Inl e \<Rightarrow> Inl e
      | Inr dflt \<Rightarrow> Inr (dict_get (button_prompts color_scheme) style dflt))"

definition generate_trading_button ::
  "(string \<Rightarrow> job) \<Rightarrow> string \<Rightarrow> string \<Rightarrow> exn + event list \<times> string list option" where
  "generate_trading_button w style color_scheme =
     (case button_prompt style color_scheme of
        Inl e \<Rightarrow> Inl e
      | Inr p \<Rightarrow>
          Inr (make_request PremiumTradingAssetsGenerator (w (''button_'' @ style @ ''_'' @ color_scheme))
                 \<lparr>prompt = p, width = 512, height = 128\<rparr> (''button_'' @ style @ ''_'' @ color_scheme)))"

section \<open>Classification of answers\<close>

text \<open>
  An answer to a status query makes \<open>_poll_prediction\<close> return when it passes
  \<open>raise_for_status\<close> and its status is \<open>succeeded\<close> or \<open>failed\<close>; every other
  answer, and a transport failure, lets the loop go on to the next attempt.
\<close>

definition terminal :: "prediction http \<Rightarrow> bool" where
  "terminal r = (case r of
       Transport_failure \<Rightarrow> False
     | Response code d \<Rightarrow>
         \<not> raise_for_status code \<and> (status d = Some ''succeeded'' \<or> status d = Some ''failed''))"

text \<open>
  The answers on which the \<open>while True\<close> loop of the icon scripts sleeps and queries
  again: status code 200 and a status other than \<open>succeeded\<close> and \<open>failed\<close>.
\<close>

definition icon_pending :: "prediction http \<Rightarrow> bool" where
  "icon_pending r = (case r of
       Transport_failure \<Rightarrow> False
     | Response code d \<Rightarrow>
         code = 200 \<and> (case status d of None \<Rightarrow> False | Some s \<Rightarrow> s \<noteq> ''succeeded'' \<and> s \<noteq> ''failed''))"

text \<open>A download that \<open>_download_assets\<close> saves: a response that passes \<open>raise_for_status\<close>.\<close>

definition fetched :: "string http \<Rightarrow> bool" where
  "fetched r = (case r of Transport_failure \<Rightarrow> False | Response code content \<Rightarrow> \<not> raise_for_status code)"

text \<open>What \<open>if result: results.append(result)\<close> adds for one result.\<close>

definition kept :: "string option \<Rightarrow> string list" where
  "kept result = (case result of Some f \<Rightarrow> if f \<noteq> [] then [f] else [] | None \<Rightarrow> [])"

section \<open>Example services\<close>

definition accepted :: "post_body http" where
  "accepted = Response 201 \<lparr>body_id = ''p1'', body_text = ''{}''\<rparr>"

definition doc :: "string \<Rightarrow> uri list option \<Rightarrow> string option \<Rightarrow> prediction http" where
  "doc st urls err = Response 200 \<lparr>status = Some st, output_urls = urls, error = err\<rparr>"

text \<open>A job that answers the first status queries from a list and all later ones alike.\<close>

definition scripted :: "post_body http \<Rightarrow> prediction http list \<Rightarrow> prediction http \<Rightarrow> (uri \<Rightarrow> string http) \<Rightarrow> job" where
  "scripted c first rest fs =
     \<lparr>created = c, polls = (\<lambda>n. if n < length first then first ! n else rest), files = fs,
      clock = (\<lambda>i. ''20250101_120000'')\<rparr>"

definition never_job :: job where
  "never_job = scripted accepted [] (doc ''processing'' None None) (\<lambda>u. Transport_failure)"

definition failed_job :: job where
  "failed_job = scripted accepted [] (doc ''failed'' None (Some ''out of memory'')) (\<lambda>u. Transport_failure)"

definition slow_job :: job where
  "slow_job = scripted accepted (replicate 60 (doc ''processing'' None None))
     (doc ''failed'' None (Some ''out of memory'')) (\<lambda>u. Transport_failure)"

definition blip_job :: job where
  "blip_job = scripted accepted [Transport_failure] (doc ''succeeded'' (Some [''https://cdn/out-0.png'']) None)
     (\<lambda>u. Response 200 ''PNG'')"

definition odd_job :: job where
  "odd_job = scripted accepted [doc ''canceling'' None None] (doc ''failed'' None None) (\<lambda>u. Transport_failure)"

definition empty_job :: job where
  "empty_job = scripted accepted [doc ''processing'' None None] (doc ''succeeded'' (Some []) None)
     (\<lambda>u. Response 200 ''PNG'')"

definition good_job :: job where
  "good_job = scripted accepted [] (doc ''succeeded'' (Some [''https://cdn/out-0.png'']) None)
     (\<lambda>u. Response 200 ''PNG'')"

definition partial_job :: job where
  "partial_job = scripted accepted []
     (doc ''succeeded'' (Some [''https://cdn/out-0.png'', ''https://cdn/out-1.png'']) None)
     (\<lambda>u. if u = ''https://cdn/out-0.png'' then Response 404 ''gone'' else Response 200 ''PNG'')"

definition accepted_200_job :: job where
  "accepted_200_job = scripted (Response 200 \<lparr>body_id = ''p1'', body_text = ''{}''\<rparr>) []
     (doc ''succeeded'' (Some [''https://cdn/out-0.png'']) None) (\<lambda>u. Response 200 ''PNG'')"

definition rejecting_job :: "string \<Rightarrow> job" where
  "rejecting_job body = scripted (Response 422 \<lparr>body_id = [], body_text = body\<rparr>) []
     Transport_failure (\<lambda>u. Transport_failure)"

definition rejecting_service :: "string \<Rightarrow> job" where
  "rejecting_service name = rejecting_job ''invalid version''"


definition mixed_service :: "string \<Rightarrow> job" where
  "mixed_service name = (if name = ''bad'' then rejecting_job ''invalid version'' else good_job)"

section \<open>Facts about traces\<close>

lemmas job_defs = accepted_def doc_def scripted_def never_job_def failed_job_def slow_job_def blip_job_def
  odd_job_def empty_job_def good_job_def partial_job_def accepted_200_job_def rejecting_job_def

lemma fst_after [simp]: "fst (after pre x) = pre @ fst x"
  by (cases x) simp

lemma snd_after [simp]: "snd (after pre x) = snd x"
  by (cases x) simp

lemma status_queries_simps [simp]:
  "status_queries [] = 0"
  "status_queries (e # evs) = (if is_status_query e then 1 else 0) + status_queries evs"
  "status_queries (evs @ evs') = status_queries evs + status_queries evs'"
  by (simp_all add: status_queries_def)

lemma requested_append [simp]: "requested (evs @ evs') = requested evs @ requested evs'"
  by (induction evs rule: requested.induct) simp_all

lemma posted_append [simp]: "posted (evs @ evs') = posted evs @ posted evs'"
  by (induction evs rule: posted.induct) simp_all

lemma status_line_queries [simp]: "status_queries (status_line g prefix st a m) = 0"
  by (cases g) simp_all

lemma status_line_requested [simp]: "requested (status_line g prefix st a m) = []"
  by (cases g) simp_all

lemma status_line_posted [simp]: "posted (status_line g prefix st a m) = []"
  by (cases g) simp_all

lemma started_lines_posted [simp]: "posted (started_lines g prefix pid) = []"
  by (cases g) simp_all

subsection \<open>Downloads\<close>

lemma download_loop_queries [simp]: "status_queries (fst (download_loop g j prefix i urls)) = 0"
  by (induction urls arbitrary: i) (auto simp: Let_def case_prod_unfold split: http.splits)

lemma download_loop_posted [simp]: "posted (fst (download_loop g j prefix i urls)) = []"
  by (induction urls arbitrary: i) (auto simp: Let_def case_prod_unfold split: http.splits)

lemma download_assets_queries [simp]: "status_queries (fst (download_assets g j urls prefix)) = 0"
  by (simp add: download_assets_def)

lemma download_assets_posted [simp]: "posted (fst (download_assets g j urls prefix)) = []"
  by (simp add: download_assets_def)

lemma download_loop_best_effort:
  "requested (fst (download_loop g j prefix i urls)) = urls
   \<and> snd (download_loop g j prefix i urls)
       = map (\<lambda>(k, u). filepath g prefix (clock j k) k) (filter (\<lambda>(k, u). fetched (files j u)) (enumerate i urls))
   \<and> written (fst (download_loop g j prefix i urls)) = snd (download_loop g j prefix i urls)"
  by (induction urls arbitrary: i)
     (auto simp: Let_def case_prod_unfold fetched_def split: http.splits)

subsection \<open>The bounded poll of the generator classes\<close>

lemma poll_attempts_queries_le:
  "status_queries (fst (poll_attempts g j pid prefix m as)) \<le> length as"
  by (induction as) (auto simp: Let_def case_prod_unfold split: http.splits option.splits list.splits)

lemma poll_attempts_posted [simp]: "posted (fst (poll_attempts g j pid prefix m as)) = []"
  by (induction as) (auto simp: Let_def case_prod_unfold split: http.splits option.splits list.splits)

lemma poll_attempts_terminal:
  "k < length as \<Longrightarrow> terminal (polls j (as ! k)) \<Longrightarrow>
   status_queries (fst (poll_attempts g j pid prefix m as)) \<le> Suc k"
proof (induction as arbitrary: k)
  case Nil
  then show ?case by simp
next
  case (Cons a as)
  show ?case
  proof (cases k)
    case 0
    with Cons.prems show ?thesis
      by (auto simp: terminal_def Let_def case_prod_unfold split: http.splits option.splits list.splits)
  next
    case (Suc k')
    with Cons.prems have "status_queries (fst (poll_attempts g j pid prefix m as)) \<le> Suc k'"
      by (intro Cons.IH) simp_all
    with Suc show ?thesis
      by (auto simp: Let_def case_prod_unfold split: http.splits option.splits list.splits)
  qed
qed

text \<open>An attempt with a non-terminal answer makes one query and hands over to the next attempt.\<close>

lemma poll_attempts_pending_step:
  assumes "\<not> terminal (polls j a)"
  shows "\<exists>ev. poll_attempts g j pid prefix m (a # as) = after ev (poll_attempts g j pid prefix m as)
            \<and> status_queries ev = 1 \<and> requested ev = []"
proof (cases "polls j a")
  case Transport_failure
  then show ?thesis
    by (intro exI [of _ "[Get_status pid, Print (Polling_error prefix ConnectionError), Sleep 2]"]) simp
next
  case (Response code d)
  with assms have d: "raise_for_status code \<or> (status d \<noteq> Some ''succeeded'' \<and> status d \<noteq> Some ''failed'')"
    by (auto simp: terminal_def)
  show ?thesis
  proof (cases "raise_for_status code")
    case True
    with Response show ?thesis
      by (intro exI [of _ "[Get_status pid, Print (Polling_error prefix (HTTPError code)), Sleep 2]"]) simp
  next
    case False
    note nr = this
    show ?thesis
    proof (cases "status d = Some ''starting'' \<or> status d = Some ''processing''")
      case True
      with Response nr d show ?thesis
        by (intro exI [of _ "Get_status pid # status_line g prefix (status d) a m @ [Sleep 2]"]) auto
    next
      case False
      with Response nr d show ?thesis
        by (intro exI [of _ "[Get_status pid, Print (Unknown_status prefix (status d)), Sleep 2]"]) auto
    qed
  qed
qed

lemma poll_attempts_pending_prefix:
  "k \<le> length as \<Longrightarrow> (\<forall>i<k. \<not> terminal (polls j (as ! i))) \<Longrightarrow>
   \<exists>pre. fst (poll_attempts g j pid prefix m as) = pre @ fst (poll_attempts g j pid prefix m (drop k as))
       \<and> snd (poll_attempts g j pid prefix m as) = snd (poll_attempts g j pid prefix m (drop k as))
       \<and> status_queries pre = k \<and> requested pre = []"
proof (induction as arbitrary: k)
  case Nil
  then show ?case by simp
next
  case (Cons a as)
  show ?case
  proof (cases k)
    case 0
    then show ?thesis by simp
  next
    case (Suc k')
    with Cons.prems have "\<not> terminal (polls j a)" by auto
    from poll_attempts_pending_step [OF this, of g pid prefix m as]
    obtain ev where ev: "poll_attempts g j pid prefix m (a # as) = after ev (poll_attempts g j pid prefix m as)"
      "status_queries ev = 1" "requested ev = []" by blast
    from Cons.prems Suc have "k' \<le> length as" "\<forall>i<k'. \<not> terminal (polls j (as ! i))" by auto
    from Cons.IH [OF this]
    obtain pre where pre: "fst (poll_attempts g j pid prefix m as) = pre @ fst (poll_attempts g j pid prefix m (drop k' as))"
      "snd (poll_attempts g j pid prefix m as) = snd (poll_attempts g j pid prefix m (drop k' as))"
      "status_queries pre = k'" "requested pre = []" by blast
    show ?thesis
      using ev pre Suc by (intro exI [of _ "ev @ pre"]) simp
  qed
qed

lemma poll_prediction_pending_prefix:
  assumes "n \<le> m" and "\<forall>i<n. \<not> terminal (polls j i)"
  shows "\<exists>pre. fst (poll_prediction g j pid prefix m) = pre @ fst (poll_attempts g j pid prefix m [n..<m])
       \<and> snd (poll_prediction g j pid prefix m) = snd (poll_attempts g j pid prefix m [n..<m])
       \<and> status_queries pre = n \<and> requested pre = []"
  using poll_attempts_pending_prefix [of n "[0..<m]" j g pid prefix m] assms
  by (simp add: poll_prediction_def)

lemma poll_timeout:
  assumes "\<forall>n<max_attempts. \<not> terminal (polls j n)"
  shows "snd (poll_prediction g j pid prefix max_attempts) = None"
  using poll_prediction_pending_prefix [of max_attempts max_attempts j g pid prefix] assms by auto

lemma poll_failed:
  assumes "polls j 0 = Response code d" "\<not> raise_for_status code" "status d = Some ''failed''" "0 < max_attempts"
  shows "snd (poll_prediction g j pid prefix max_attempts) = None"
proof -
  from assms have "[0..<max_attempts] = 0 # [Suc 0..<max_attempts]" by (simp add: upt_conv_Cons)
  with assms show ?thesis by (simp add: poll_prediction_def)
qed

lemma make_request_posted [simp]: "posted (fst (make_request g j pl prefix)) = [pl]"
  by (auto simp: make_request_def poll_prediction_def split: sum.splits)

subsection \<open>The fintech script\<close>

lemma fintech_attempts_queries_le:
  "status_queries (fst (fintech_attempts j c pid as)) \<le> length as"
  by (induction as) (auto simp: Let_def split: http.splits option.splits list.splits)

lemma fintech_queries_le: "status_queries (fst (generate_fintech_icon j c p)) \<le> 60"
  using fintech_attempts_queries_le [of j c _ "[0..<60]"]
  by (auto simp: generate_fintech_icon_def split: sum.splits)

text \<open>
  An answer with a status other than \<open>succeeded\<close> and \<open>failed\<close>, known or not: the
  fintech script sleeps and goes on to the next attempt without printing anything.
\<close>

lemma fintech_other_status_retries:
  "polls j a = Response code d \<Longrightarrow> status d = Some s \<Longrightarrow> s \<noteq> ''succeeded'' \<Longrightarrow> s \<noteq> ''failed'' \<Longrightarrow>
   fintech_attempts j c pid (a # rest) = after [Get_status pid, Sleep 2] (fintech_attempts j c pid rest)"
  by simp

lemma fintech_attempts_posted [simp]: "posted (fst (fintech_attempts j c pid as)) = []"
  by (induction as) (auto simp: Let_def split: http.splits option.splits list.splits)

lemma fintech_posted [simp]: "posted (fst (generate_fintech_icon j c p)) = [fintech_payload p]"
  by (auto simp: generate_fintech_icon_def split: sum.splits)


lemma fintech_main_loop_results:
  "snd (fintech_main_loop w reqs evs results)
     = results @ concat (map (\<lambda>(c, p). kept (snd (generate_fintech_icon (w c) c p))) reqs)"
  by (induction reqs arbitrary: evs results)
     (auto simp: case_prod_unfold Let_def kept_def split: option.splits)

subsection \<open>The open-ended poll of the icon scripts\<close>

lemma icon_poll_pending_step:
  "icon_pending (polls j n) \<Longrightarrow>
   icon_poll dir j c pid n acc = icon_poll dir j c pid (Suc n) (acc @ [Get_status pid, Sleep 2])"
  by (subst icon_poll.simps) (auto simp: icon_pending_def split: http.splits option.splits)

lemma icon_poll_pending:
  "(\<forall>i<k. icon_pending (polls j (n + i))) \<Longrightarrow>
   icon_poll dir j c pid n acc
     = icon_poll dir j c pid (n + k) (acc @ concat (replicate k [Get_status pid, Sleep 2]))"
proof (induction k arbitrary: n acc)
  case 0
  then show ?case by simp
next
  case (Suc k)
  from Suc.prems have "icon_pending (polls j n)" by (metis add.right_neutral zero_less_Suc)
  then have "icon_poll dir j c pid n acc = icon_poll dir j c pid (Suc n) (acc @ [Get_status pid, Sleep 2])"
    by (rule icon_poll_pending_step)
  also have "\<dots> = icon_poll dir j c pid (Suc n + k)
      ((acc @ [Get_status pid, Sleep 2]) @ concat (replicate k [Get_status pid, Sleep 2]))"
    using Suc.prems by (intro Suc.IH) (metis Suc_less_eq add_Suc_shift)
  finally show ?case by simp
qed


lemma status_queries_replicate [simp]:
  "status_queries (concat (replicate k [Get_status pid, Sleep 2])) = k"
  by (induction k) simp_all






lemma icon_main_loop_results:
  "icon_main_loop dir w reqs evs icons = Some (evs', icons') \<Longrightarrow>
   icons' = icons @ concat (map (\<lambda>(c, p). case generate_icon dir (w c) c p of
                                             None \<Rightarrow> [] | Some (_, r) \<Rightarrow> kept r) reqs)"
proof (induction reqs arbitrary: evs icons)
  case Nil
  then show ?case by simp
next
  case (Cons a reqs)
  obtain c p where a: "a = (c, p)" by (cases a)
  with Cons.prems obtain ev r where g: "generate_icon dir (w c) c p = Some (ev, r)"
    by (auto split: option.splits)
  with Cons.prems a have "icon_main_loop dir w reqs (evs @ ev @ [Sleep 1]) (icons @ kept r) = Some (evs', icons')"
    by (auto simp: kept_def split: option.splits if_splits)
  from Cons.IH [OF this] g a show ?case by simp
qed

lemma good_icon:
  "generate_icon dir good_job c p
     = Some ([Post (icon_payload p), Print (Started_icon c), Get_status ''p1'', Get_url ''https://cdn/out-0.png'',
              Makedirs dir, Write (dir @ ''/'' @ c @ ''_20250101_120000.png'') ''PNG'',
              Print (Icon_saved c (dir @ ''/'' @ c @ ''_20250101_120000.png''))],
             Some (dir @ ''/'' @ c @ ''_20250101_120000.png''))"
  unfolding generate_icon_def
  by (subst icon_poll.simps) (simp add: icon_submit_def job_defs save_icon_def Let_def)

lemma bad_icon:
  "generate_icon dir (rejecting_job b) c p = Some ([Post (icon_payload p)], None)"
  by (simp add: generate_icon_def icon_submit_def job_defs)

subsection \<open>Prompt selection and the batch of \<open>PremiumIconGenerator\<close>\<close>

lemma prompts_lengths: "\<forall>(k, v) \<in> set prompts. length v = 3"
  by (simp add: prompts_def)

lemma dict_get_length:
  "\<forall>(k, v) \<in> set d. length v = n \<Longrightarrow> length dflt = n \<Longrightarrow> length (dict_get d k dflt) = n"
  by (auto simp: dict_get_def split: option.splits dest: map_of_SomeD)

lemma dict_item_modern: "\<exists>m. dict_item prompts ''modern'' = Inr m \<and> length m = 3"
  by (simp add: dict_item_def prompts_def)

lemma list_item_in_range:
  "- int (length xs) \<le> k \<Longrightarrow> k < int (length xs) \<Longrightarrow> \<exists>x. list_item xs k = Inr x"
  by (auto simp: list_item_def)

text \<open>From variation \<open>-2\<close> upwards the selection returns a prompt, for every style.\<close>

lemma select_prompt_total:
  assumes "- 3 < variation"
  shows "\<exists>p. select_prompt style variation = Inr p"
proof -
  obtain m where m: "dict_item prompts ''modern'' = Inr m" "length m = 3"
    using dict_item_modern by blast
  have len: "length (dict_get prompts style m) = 3"
    using prompts_lengths m(2) by (rule dict_get_length)
  show ?thesis
  proof (cases "variation \<le> 3")
    case True
    with assms len have "\<exists>x. list_item (dict_get prompts style m) (variation - 1) = Inr x"
      by (intro list_item_in_range) simp_all
    with True m len show ?thesis by (simp add: select_prompt_def)
  next
    case False
    from len have "\<exists>x. list_item (dict_get prompts style m) 0 = Inr x"
      by (intro list_item_in_range) simp_all
    with False m len show ?thesis by (simp add: select_prompt_def)
  qed
qed

text \<open>Variation 0 selects index \<open>-1\<close>, the last prompt of the style, not the first.\<close>

lemma zero_variation_selects_last: "select_prompt ''modern'' 0 = select_prompt ''modern'' 3"
  by (simp add: select_prompt_def dict_item_def dict_get_def prompts_def list_item_def)

text \<open>The dictionary lookup with a default never fails, whatever the style.\<close>

lemma button_prompt_total: "\<exists>p. button_prompt style color_scheme = Inr p"
  by (simp add: button_prompt_def dict_item_def button_prompts_def)

lemma generate_trading_button_total: "\<exists>r. generate_trading_button w style color_scheme = Inr r"
  using button_prompt_total [of style color_scheme]
  by (auto simp: generate_trading_button_def)

lemma variations_loop_total:
  "\<forall>i \<in> set vs. - 3 < i \<Longrightarrow>
   \<exists>evs' icons'. variations_loop w style vs (evs, icons) = Inr (evs', icons')
      \<and> length (posted evs') = length (posted evs) + length vs"
proof (induction vs arbitrary: evs icons)
  case Nil
  then show ?case by simp
next
  case (Cons i vs)
  then obtain p where p: "select_prompt style i = Inr p" using select_prompt_total [of i style] by auto
  obtain ev r where m: "make_request PremiumIconGenerator (w (analytics_prefix style i))
      \<lparr>prompt = p, width = 512, height = 512\<rparr> (analytics_prefix style i) = (ev, r)"
    by (cases "make_request PremiumIconGenerator (w (analytics_prefix style i))
      \<lparr>prompt = p, width = 512, height = 512\<rparr> (analytics_prefix style i)")
  then have "posted ev = [\<lparr>prompt = p, width = 512, height = 512\<rparr>]"
    using make_request_posted [of PremiumIconGenerator "w (analytics_prefix style i)"
        "\<lparr>prompt = p, width = 512, height = 512\<rparr>" "analytics_prefix style i"] by simp
  with p m have g: "generate_ai_analytics_icon w style i = Inr (ev, r)" "length (posted ev) = 1"
    by (simp_all add: generate_ai_analytics_icon_def)
  from Cons.prems have "\<forall>i \<in> set vs. - 3 < i" by simp
  from Cons.IH [OF this, of "evs @ ev @ [Sleep 1]"] g show ?case by simp
qed

lemma variations_loop_results:
  "variations_loop w style vs (evs, icons) = Inr (evs', icons') \<Longrightarrow>
   icons' = icons @ concat (map (\<lambda>i. case generate_ai_analytics_icon w style i of
                                       Inr (_, Some fs) \<Rightarrow> fs | _ \<Rightarrow> []) vs)"
proof (induction vs arbitrary: evs icons)
  case Nil
  then show ?case by simp
next
  case (Cons i vs)
  then obtain ev r where g: "generate_ai_analytics_icon w style i = Inr (ev, r)"
    by (auto split: sum.splits)
  with Cons.prems have "variations_loop w style vs
      (evs @ ev @ [Sleep 1], icons @ (case r of Some fs \<Rightarrow> fs | None \<Rightarrow> [])) = Inr (evs', icons')"
    by (auto split: option.splits)
  from Cons.IH [OF this] g show ?case by (auto split: option.splits)
qed

section \<open>The claims\<close>

subsection \<open>C1: the number of status queries\<close>

text \<open>
  Claim C1 says that for every job and every bound \<open>maxAttempts\<close> the poll makes at most
  \<open>maxAttempts\<close> status queries, and that a terminal status at the N-th query ends the poll
  with no further query. This holds, as amended, for the polls that have an attempt
  counter: \<open>_poll_prediction\<close> of the three generator classes makes at most
  \<open>max_attempts\<close> status queries, a terminal answer at query \<open>n\<close> (counted from 0)
  leaves at most \<open>n + 1\<close> queries, and \<open>generate_fintech_icon\<close> makes at most 60.
\<close>

theorem poll_query_bound:
  "status_queries (fst (poll_prediction g j pid prefix max_attempts)) \<le> max_attempts
   \<and> (\<forall>n<max_attempts. terminal (polls j n) \<longrightarrow>
        status_queries (fst (poll_prediction g j pid prefix max_attempts)) \<le> Suc n)
   \<and> status_queries (fst (generate_fintech_icon j c p)) \<le> 60"
proof (intro conjI allI impI)
  show "status_queries (fst (poll_prediction g j pid prefix max_attempts)) \<le> max_attempts"
    using poll_attempts_queries_le [of g j pid prefix max_attempts "[0..<max_attempts]"]
    by (simp add: poll_prediction_def)
next
  fix n assume "n < max_attempts" "terminal (polls j n)"
  then show "status_queries (fst (poll_prediction g j pid prefix max_attempts)) \<le> Suc n"
    using poll_attempts_terminal [of n "[0..<max_attempts]" j g pid prefix max_attempts]
    by (simp add: poll_prediction_def)
next
  show "status_queries (fst (generate_fintech_icon j c p)) \<le> 60"
    by (rule fintech_queries_le)
qed

text \<open>The bound at a job whose first answer reports failure: one query, and no more.\<close>

theorem poll_query_bound_witness:
  "terminal (polls failed_job 0)
   \<and> status_queries (fst (poll_prediction PremiumTradingAssetsGenerator failed_job ''p1'' ''icon'' 60)) \<le> Suc 0"
proof -
  have t: "terminal (polls failed_job 0)"
    by (simp add: terminal_def job_defs raise_for_status_def)
  with poll_query_bound [of PremiumTradingAssetsGenerator failed_job "''p1''" "''icon''" 60]
  show ?thesis by auto
qed

text \<open>
  The loop of \<open>generate_ai_icon\<close> is \<open>while True\<close>: a job that answers
  \<open>processing\<close> sixty times and then \<open>failed\<close> is queried 61 times.
\<close>

theorem open_ended_poll_exceeds_60:
  "map_option (status_queries \<circ> fst) (generate_ai_icon slow_job ''green_blue_glow'' ''icon'') = Some 61"
proof -
  have "icon_poll ''ai_trading_icons'' slow_job ''green_blue_glow'' ''p1'' 0
          [Post (icon_payload ''icon''), Print (Started_icon ''green_blue_glow'')]
      = icon_poll ''ai_trading_icons'' slow_job ''green_blue_glow'' ''p1'' (0 + 60)
          ([Post (icon_payload ''icon''), Print (Started_icon ''green_blue_glow'')]
             @ concat (replicate 60 [Get_status ''p1'', Sleep 2]))"
    by (rule icon_poll_pending) (simp add: job_defs icon_pending_def)
  also have "\<dots> = Some (([Post (icon_payload ''icon''), Print (Started_icon ''green_blue_glow'')]
             @ concat (replicate 60 [Get_status ''p1'', Sleep 2]))
        @ [Get_status ''p1'', Print (Failed_to_generate ''green_blue_glow'' ''out of memory'')], None)"
    by (subst icon_poll.simps) (simp add: job_defs get_error_def)
  finally show ?thesis
    by (simp add: generate_ai_icon_def generate_icon_def icon_submit_def job_defs)
qed

subsection \<open>C2: acceptance of a submission\<close>

text \<open>
  Claim C2 says that a submission yields a job handle exactly for a 2xx answer and that
  every other answer yields a \<open>SubmissionError\<close> carrying the response body. As amended:
  \<open>_make_request\<close> and \<open>generate_fintech_icon\<close> obtain the prediction id exactly
  when the answer is not in 400..599 (the range of \<open>raise_for_status\<close>);
  \<open>generate_ai_icon\<close> and \<open>generate_professional_icon\<close> obtain it exactly for status
  code 201; on a rejected submission each of them returns \<open>None\<close>, and neither the
  result nor the trace holds the response body.
\<close>

theorem submit_accepts:
  "((\<exists>pid. submit r = Inr pid) \<longleftrightarrow> (\<exists>code b. r = Response code b \<and> \<not> (400 \<le> code \<and> code < 600)))
   \<and> ((\<exists>pid. icon_submit r = Inr pid) \<longleftrightarrow> (\<exists>b. r = Response 201 b))
   \<and> (submit (created j) = Inl e \<longrightarrow>
        make_request g j pl prefix = ([Post pl, Print (Api_request_failed e)], None)
        \<and> generate_fintech_icon j c p = ([Post (fintech_payload p), Print Fintech_error], None))
   \<and> (icon_submit (created j) = Inl x \<longrightarrow> map_option snd (generate_icon dir j c p) = Some None)"
  by (auto simp: submit_def icon_submit_def raise_for_status_def make_request_def generate_fintech_icon_def
        generate_icon_def split: http.splits option.splits)

text \<open>A submission answered with 422, and one answered with 200 in an icon script.\<close>

theorem submit_accepts_witness:
  "submit (created (rejecting_job ''invalid version'')) = Inl (HTTPError 422)
   \<and> make_request StunningIconGenerator (rejecting_job ''invalid version'') (icon_payload ''icon'') ''icon''
       = ([Post (icon_payload ''icon''), Print (Api_request_failed (HTTPError 422))], None)
   \<and> generate_fintech_icon (rejecting_job ''invalid version'') ''trading_bull_icon'' ''icon''
       = ([Post (fintech_payload ''icon''), Print Fintech_error], None)
   \<and> icon_submit (created accepted_200_job) = Inl None
   \<and> map_option snd (generate_icon ''ai_trading_icons'' accepted_200_job ''green_blue_glow'' ''icon'') = Some None"
proof -
  have 1: "submit (created (rejecting_job ''invalid version'')) = Inl (HTTPError 422)"
    by (simp add: submit_def job_defs raise_for_status_def)
  have 2: "icon_submit (created accepted_200_job) = Inl None"
    by (simp add: icon_submit_def job_defs)
  from 1 submit_accepts [of "created (rejecting_job ''invalid version'')" "rejecting_job ''invalid version''"
      "HTTPError 422" StunningIconGenerator "icon_payload ''icon''" "''icon''" "''trading_bull_icon''" "''icon''"]
  have 3: "make_request StunningIconGenerator (rejecting_job ''invalid version'') (icon_payload ''icon'') ''icon''
       = ([Post (icon_payload ''icon''), Print (Api_request_failed (HTTPError 422))], None)
   \<and> generate_fintech_icon (rejecting_job ''invalid version'') ''trading_bull_icon'' ''icon''
       = ([Post (fintech_payload ''icon''), Print Fintech_error], None)"
    by blast
  from 2 submit_accepts [of "created accepted_200_job" accepted_200_job _ _ _ _ "''green_blue_glow''" "''icon''"
      None "''ai_trading_icons''"]
  have 4: "map_option snd (generate_icon ''ai_trading_icons'' accepted_200_job ''green_blue_glow'' ''icon'') = Some None"
    by blast
  from 1 2 3 4 show ?thesis by simp
qed

text \<open>
  A 200 answer to the POST gives no handle in \<open>generate_ai_icon\<close>, which returns
  \<open>None\<close> without a status query; two rejections with different bodies are
  indistinguishable in what \<open>_make_request\<close> returns and does.
\<close>

theorem submit_200_gives_no_handle:
  "icon_submit (created accepted_200_job) = Inl None
   \<and> generate_ai_icon accepted_200_job ''green_blue_glow'' ''icon'' = Some ([Post (icon_payload ''icon'')], None)
   \<and> make_request PremiumTradingAssetsGenerator (rejecting_job ''version does not exist'') (icon_payload ''icon'') ''icon''
       = make_request PremiumTradingAssetsGenerator (rejecting_job ''invalid token'') (icon_payload ''icon'') ''icon''"
  by (simp add: icon_submit_def job_defs generate_ai_icon_def generate_icon_def
        make_request_def submit_def raise_for_status_def)

subsection \<open>C3: time-out and reported failure\<close>

text \<open>
  Claim C3 says that a job that stays non-terminal for all attempts ends in a time-out
  outcome that the caller can tell, by the result type, from a failure reported by the
  service. As amended: such a job makes \<open>_poll_prediction\<close> return \<open>None\<close> after
  exactly \<open>max_attempts\<close> queries, the last event being the time-out line; a job whose
  answer reports \<open>failed\<close> makes it return \<open>None\<close> as well, the last event being the
  failure line. The two outcomes differ in the printed line only, not in the value
  returned.
\<close>

theorem timeout_and_failure_both_none:
  "((\<forall>n<max_attempts. \<not> terminal (polls j n)) \<longrightarrow>
      snd (poll_prediction g j pid prefix max_attempts) = None
      \<and> status_queries (fst (poll_prediction g j pid prefix max_attempts)) = max_attempts
      \<and> last (fst (poll_prediction g j pid prefix max_attempts)) = Print (Timeout_waiting prefix))
   \<and> (n < max_attempts \<and> (\<forall>i<n. \<not> terminal (polls j i)) \<and> polls j n = Response code d
        \<and> \<not> raise_for_status code \<and> status d = Some ''failed'' \<longrightarrow>
      snd (poll_prediction g j pid prefix max_attempts) = None
      \<and> last (fst (poll_prediction g j pid prefix max_attempts)) = Print (Generation_failed prefix (get_error d)))"
proof (intro conjI impI)
  assume a: "\<forall>n<max_attempts. \<not> terminal (polls j n)"
  from poll_prediction_pending_prefix [of max_attempts max_attempts j g pid prefix] a
  obtain pre where "fst (poll_prediction g j pid prefix max_attempts) = pre @ [Print (Timeout_waiting prefix)]"
    "snd (poll_prediction g j pid prefix max_attempts) = None" "status_queries pre = max_attempts"
    by auto
  then show "snd (poll_prediction g j pid prefix max_attempts) = None"
    "status_queries (fst (poll_prediction g j pid prefix max_attempts)) = max_attempts"
    "last (fst (poll_prediction g j pid prefix max_attempts)) = Print (Timeout_waiting prefix)"
    by simp_all
next
  assume a: "n < max_attempts \<and> (\<forall>i<n. \<not> terminal (polls j i)) \<and> polls j n = Response code d
        \<and> \<not> raise_for_status code \<and> status d = Some ''failed''"
  then have "[n..<max_attempts] = n # [Suc n..<max_attempts]" by (simp add: upt_conv_Cons)
  with a have "poll_attempts g j pid prefix max_attempts [n..<max_attempts]
      = ([Get_status pid, Print (Generation_failed prefix (get_error d))], None)" by simp
  with poll_prediction_pending_prefix [of n max_attempts j g pid prefix] a
  obtain pre where "fst (poll_prediction g j pid prefix max_attempts)
        = pre @ [Get_status pid, Print (Generation_failed prefix (get_error d))]"
    "snd (poll_prediction g j pid prefix max_attempts) = None"
    by auto
  then show "snd (poll_prediction g j pid prefix max_attempts) = None"
    "last (fst (poll_prediction g j pid prefix max_attempts)) = Print (Generation_failed prefix (get_error d))"
    by simp_all
qed

text \<open>A job that is always \<open>processing\<close> and a job that reports \<open>failed\<close> at once.\<close>

theorem timeout_and_failure_both_none_witness:
  "snd (poll_prediction PremiumIconGenerator never_job ''p1'' ''icon'' 60) = None
   \<and> status_queries (fst (poll_prediction PremiumIconGenerator never_job ''p1'' ''icon'' 60)) = 60
   \<and> last (fst (poll_prediction PremiumIconGenerator never_job ''p1'' ''icon'' 60)) = Print (Timeout_waiting ''icon'')
   \<and> snd (poll_prediction PremiumIconGenerator failed_job ''p1'' ''icon'' 60) = None
   \<and> last (fst (poll_prediction PremiumIconGenerator failed_job ''p1'' ''icon'' 60))
       = Print (Generation_failed ''icon'' ''out of memory'')"
proof -
  have n: "\<forall>n<60. \<not> terminal (polls never_job n)" by (simp add: terminal_def job_defs)
  have f: "polls failed_job 0 = Response 200 \<lparr>status = Some ''failed'', output_urls = None, error = Some ''out of memory''\<rparr>"
    by (simp add: job_defs)
  from timeout_and_failure_both_none [of 60 never_job PremiumIconGenerator "''p1''" "''icon''" 0 200
      "\<lparr>status = Some ''failed'', output_urls = None, error = Some ''out of memory''\<rparr>"] n
  have 1: "snd (poll_prediction PremiumIconGenerator never_job ''p1'' ''icon'' 60) = None
   \<and> status_queries (fst (poll_prediction PremiumIconGenerator never_job ''p1'' ''icon'' 60)) = 60
   \<and> last (fst (poll_prediction PremiumIconGenerator never_job ''p1'' ''icon'' 60)) = Print (Timeout_waiting ''icon'')"
    by blast
  from timeout_and_failure_both_none [of 60 failed_job PremiumIconGenerator "''p1''" "''icon''" 0 200
      "\<lparr>status = Some ''failed'', output_urls = None, error = Some ''out of memory''\<rparr>"] f
  have 2: "snd (poll_prediction PremiumIconGenerator failed_job ''p1'' ''icon'' 60) = None
   \<and> last (fst (poll_prediction PremiumIconGenerator failed_job ''p1'' ''icon'' 60))
       = Print (Generation_failed ''icon'' ''out of memory'')"
    by (simp add: raise_for_status_def get_error_def)
  from 1 2 show ?thesis by simp
qed

text \<open>The value returned after a time-out is the value returned after a reported failure.\<close>

theorem timeout_not_distinguished:
  "snd (poll_prediction PremiumIconGenerator never_job ''p1'' ''icon'' 60)
     = snd (poll_prediction PremiumIconGenerator failed_job ''p1'' ''icon'' 60)"
proof -
  have "snd (poll_prediction PremiumIconGenerator never_job ''p1'' ''icon'' 60) = None"
    by (rule poll_timeout) (simp add: terminal_def job_defs)
  moreover have "snd (poll_prediction PremiumIconGenerator failed_job ''p1'' ''icon'' 60) = None"
    by (rule poll_failed [where code = 200
          and d = "\<lparr>status = Some ''failed'', output_urls = None, error = Some ''out of memory''\<rparr>"])
       (simp_all add: job_defs raise_for_status_def)
  ultimately show ?thesis by simp
qed

subsection \<open>C4: a transport error during a poll attempt\<close>

text \<open>
  Claim C4 says that a transport error during a poll attempt never ends the poll: it
  uses up one attempt and the loop retries after the same interval. As amended, this
  is what \<open>_poll_prediction\<close> of the generator classes does: when the attempts before
  attempt \<open>n\<close> were not terminal and query \<open>n\<close> raises, the method prints the polling
  error, sleeps 2 seconds and goes on with the attempts \<open>n + 1, ..., max_attempts - 1\<close>,
  whose outcome is the outcome of the poll.
\<close>

theorem transport_error_consumes_one_attempt:
  assumes "n < max_attempts" and "\<forall>i<n. \<not> terminal (polls j i)" and "polls j n = Transport_failure"
  shows "\<exists>pre. fst (poll_prediction g j pid prefix max_attempts)
             = pre @ [Get_status pid, Print (Polling_error prefix ConnectionError), Sleep 2]
                 @ fst (poll_attempts g j pid prefix max_attempts [Suc n..<max_attempts])
           \<and> snd (poll_prediction g j pid prefix max_attempts)
             = snd (poll_attempts g j pid prefix max_attempts [Suc n..<max_attempts])
           \<and> status_queries pre = n"
proof -
  from assms have "[n..<max_attempts] = n # [Suc n..<max_attempts]" by (simp add: upt_conv_Cons)
  with assms have "poll_attempts g j pid prefix max_attempts [n..<max_attempts]
      = after [Get_status pid, Print (Polling_error prefix ConnectionError), Sleep 2]
          (poll_attempts g j pid prefix max_attempts [Suc n..<max_attempts])" by simp
  with poll_prediction_pending_prefix [of n max_attempts j g pid prefix] assms
  show ?thesis by auto
qed

text \<open>A job whose first status query fails in transport and whose second reports success.\<close>

theorem transport_error_consumes_one_attempt_witness:
  "\<exists>pre. fst (poll_prediction StunningIconGenerator blip_job ''p1'' ''icon'' 60)
             = pre @ [Get_status ''p1'', Print (Polling_error ''icon'' ConnectionError), Sleep 2]
                 @ fst (poll_attempts StunningIconGenerator blip_job ''p1'' ''icon'' 60 [Suc 0..<60])
           \<and> snd (poll_prediction StunningIconGenerator blip_job ''p1'' ''icon'' 60)
             = snd (poll_attempts StunningIconGenerator blip_job ''p1'' ''icon'' 60 [Suc 0..<60])
           \<and> status_queries pre = 0"
  using transport_error_consumes_one_attempt [of 0 60 blip_job StunningIconGenerator "''p1''" "''icon''"]
  by (simp add: job_defs)

text \<open>
  In \<open>generate_ai_icon\<close> and in \<open>generate_fintech_icon\<close> the same transport error is
  caught by the outer \<open>except Exception\<close>: the function returns \<open>None\<close> after one
  query, although the next query would have reported success.
\<close>

theorem transport_error_ends_icon_poll:
  "generate_ai_icon blip_job ''green_blue_glow'' ''icon''
     = Some ([Post (icon_payload ''icon''), Print (Started_icon ''green_blue_glow''), Get_status ''p1'',
              Print (Error_generating ''green_blue_glow'')], None)
   \<and> generate_fintech_icon blip_job ''trading_bull_icon'' ''icon''
     = ([Post (fintech_payload ''icon''), Print (Fintech_generating ''trading_bull_icon''),
         Print (Prediction_id ''p1''), Get_status ''p1'', Print Fintech_error], None)"
proof
  show "generate_ai_icon blip_job ''green_blue_glow'' ''icon''
     = Some ([Post (icon_payload ''icon''), Print (Started_icon ''green_blue_glow''), Get_status ''p1'',
              Print (Error_generating ''green_blue_glow'')], None)"
    unfolding generate_ai_icon_def generate_icon_def
    by (subst icon_poll.simps) (simp add: icon_submit_def job_defs)
next
  have "[0..<60] = 0 # [1..<60]" by (simp add: upt_conv_Cons)
  then show "generate_fintech_icon blip_job ''trading_bull_icon'' ''icon''
     = ([Post (fintech_payload ''icon''), Print (Fintech_generating ''trading_bull_icon''),
         Print (Prediction_id ''p1''), Get_status ''p1'', Print Fintech_error], None)"
    by (simp add: generate_fintech_icon_def submit_def raise_for_status_def job_defs)
qed

subsection \<open>C5: errors stay inside their pipeline\<close>




subsection \<open>C6: what the batch result records\<close>

text \<open>
  Claim C6 says that the batch result holds exactly one outcome per request, keyed by
  the request, failures included. As amended: the result of a batch is the list of the
  file paths of the requests whose pipeline returned a truthy value, in the order of
  the requests; a request whose pipeline returned \<open>None\<close> (or an empty list) adds
  nothing to it, and the list is not keyed by request.
\<close>

theorem batch_result_keeps_successes_only:
  "snd (fintech_main w concepts) = concat (map (\<lambda>(c, p). kept (snd (generate_fintech_icon (w c) c p))) concepts)
   \<and> (icon_main dir w variations = Some (evs, icons) \<longrightarrow>
        icons = concat (map (\<lambda>(c, p). case generate_icon dir (w c) c p of
                                         None \<Rightarrow> [] | Some (_, r) \<Rightarrow> kept r) variations))
   \<and> (\<exists>evs'. generate_multiple_variations w
        = Inr (evs', concat (map (\<lambda>(s, i). case generate_ai_analytics_icon w s i of
                                             Inr (_, Some fs) \<Rightarrow> fs | _ \<Rightarrow> [])
            [(''modern'', 1), (''modern'', 2), (''modern'', 3), (''luxury'', 1), (''luxury'', 2),
             (''tech'', 1), (''tech'', 2)])))"
proof (intro conjI impI)
  show "snd (fintech_main w concepts) = concat (map (\<lambda>(c, p). kept (snd (generate_fintech_icon (w c) c p))) concepts)"
    by (simp add: fintech_main_def fintech_main_loop_results)
next
  assume "icon_main dir w variations = Some (evs, icons)"
  then show "icons = concat (map (\<lambda>(c, p). case generate_icon dir (w c) c p of
                                         None \<Rightarrow> [] | Some (_, r) \<Rightarrow> kept r) variations)"
    using icon_main_loop_results [of dir w variations "[]" "[]" evs icons] by (simp add: icon_main_def)
next
  from variations_loop_total [of "[1, 2, 3]" w "''modern''" "[]" "[]"]
  obtain e1 i1 where 1: "variations_loop w ''modern'' [1, 2, 3] ([], []) = Inr (e1, i1)" by auto
  from variations_loop_total [of "[1, 2]" w "''luxury''" e1 i1]
  obtain e2 i2 where 2: "variations_loop w ''luxury'' [1, 2] (e1, i1) = Inr (e2, i2)" by auto
  from variations_loop_total [of "[1, 2]" w "''tech''" e2 i2]
  obtain e3 i3 where 3: "variations_loop w ''tech'' [1, 2] (e2, i2) = Inr (e3, i3)" by auto
  from variations_loop_results [OF 1] variations_loop_results [OF 2] variations_loop_results [OF 3]
  have "i3 = concat (map (\<lambda>(s, i). case generate_ai_analytics_icon w s i of
                                             Inr (_, Some fs) \<Rightarrow> fs | _ \<Rightarrow> [])
            [(''modern'', 1), (''modern'', 2), (''modern'', 3), (''luxury'', 1), (''luxury'', 2),
             (''tech'', 1), (''tech'', 2)])"
    by simp
  with 1 2 3 show "\<exists>evs'. generate_multiple_variations w
        = Inr (evs', concat (map (\<lambda>(s, i). case generate_ai_analytics_icon w s i of
                                             Inr (_, Some fs) \<Rightarrow> fs | _ \<Rightarrow> [])
            [(''modern'', 1), (''modern'', 2), (''modern'', 3), (''luxury'', 1), (''luxury'', 2),
             (''tech'', 1), (''tech'', 2)]))"
    by (simp add: generate_multiple_variations_def)
qed

text \<open>A batch of a rejected and a successful request: the result holds one path.\<close>

theorem batch_result_keeps_successes_only_witness:
  "icon_main ''ai_trading_icons'' mixed_service [(''bad'', ''icon''), (''good'', ''icon'')]
     = Some ([Post (icon_payload ''icon''), Sleep 1,
              Post (icon_payload ''icon''), Print (Started_icon ''good''), Get_status ''p1'',
              Get_url ''https://cdn/out-0.png'', Makedirs ''ai_trading_icons'',
              Write ''ai_trading_icons/good_20250101_120000.png'' ''PNG'',
              Print (Icon_saved ''good'' ''ai_trading_icons/good_20250101_120000.png''), Sleep 1],
             [''ai_trading_icons/good_20250101_120000.png''])
   \<and> [''ai_trading_icons/good_20250101_120000.png'']
     = concat (map (\<lambda>(c, p). case generate_icon ''ai_trading_icons'' (mixed_service c) c p of
                                 None \<Rightarrow> [] | Some (_, r) \<Rightarrow> kept r) [(''bad'', ''icon''), (''good'', ''icon'')])"
proof -
  have m: "icon_main ''ai_trading_icons'' mixed_service [(''bad'', ''icon''), (''good'', ''icon'')]
     = Some ([Post (icon_payload ''icon''), Sleep 1,
              Post (icon_payload ''icon''), Print (Started_icon ''good''), Get_status ''p1'',
              Get_url ''https://cdn/out-0.png'', Makedirs ''ai_trading_icons'',
              Write ''ai_trading_icons/good_20250101_120000.png'' ''PNG'',
              Print (Icon_saved ''good'' ''ai_trading_icons/good_20250101_120000.png''), Sleep 1],
             [''ai_trading_icons/good_20250101_120000.png''])"
    by (simp add: icon_main_def mixed_service_def bad_icon good_icon)
  with batch_result_keeps_successes_only [of mixed_service "[]" "''ai_trading_icons''"
      "[(''bad'', ''icon''), (''good'', ''icon'')]" _ "[''ai_trading_icons/good_20250101_120000.png'']"]
  show ?thesis by blast
qed

text \<open>A batch of one request that is rejected: the result is empty.\<close>

theorem failed_request_leaves_no_entry:
  "icon_main ''ai_trading_icons'' rejecting_service [(''green_blue_glow'', ''icon'')]
     = Some ([Post (icon_payload ''icon''), Sleep 1], [])"
  by (simp add: icon_main_def rejecting_service_def bad_icon)

subsection \<open>C7: downloading the outputs of one job\<close>

text \<open>
  Claim C7 says that fetching is fail-fast: the first output URI that cannot be retrieved
  aborts the remaining ones, so that no partial set of artifacts is produced. As
  amended: \<open>_download_assets\<close> is best-effort. It requests every URI of the list, in
  order; a URI whose retrieval fails is reported and skipped; the files written and the
  paths returned are those of the URIs that were retrieved, in order, so the result may
  be a partial set.
\<close>

theorem download_is_best_effort:
  "requested (fst (download_assets g j urls prefix)) = urls
   \<and> snd (download_assets g j urls prefix)
       = map (\<lambda>(k, u). filepath g prefix (clock j k) k) (filter (\<lambda>(k, u). fetched (files j u)) (enumerate 0 urls))
   \<and> written (fst (download_assets g j urls prefix)) = snd (download_assets g j urls prefix)"
  unfolding download_assets_def by (rule download_loop_best_effort)

text \<open>Two output URIs of which the first answers 404.\<close>

theorem download_is_best_effort_witness:
  "requested (fst (download_assets StunningIconGenerator partial_job
      [''https://cdn/out-0.png'', ''https://cdn/out-1.png''] ''icon''))
     = [''https://cdn/out-0.png'', ''https://cdn/out-1.png'']
   \<and> snd (download_assets StunningIconGenerator partial_job
      [''https://cdn/out-0.png'', ''https://cdn/out-1.png''] ''icon'')
     = [''stunning_icons/icon_20250101_120000.png'']
   \<and> written (fst (download_assets StunningIconGenerator partial_job
      [''https://cdn/out-0.png'', ''https://cdn/out-1.png''] ''icon''))
     = [''stunning_icons/icon_20250101_120000.png'']"
  using download_is_best_effort [of StunningIconGenerator partial_job
      "[''https://cdn/out-0.png'', ''https://cdn/out-1.png'']" "''icon''"]
  by (simp add: job_defs fetched_def raise_for_status_def filepath_def path_join_def)

text \<open>
  After the failed download of the first URI the second one is still requested and
  saved, and the method returns the one path.
\<close>

theorem download_goes_on_after_failure:
  "download_assets PremiumTradingAssetsGenerator partial_job
      [''https://cdn/out-0.png'', ''https://cdn/out-1.png''] ''icon''
   = ([Get_url ''https://cdn/out-0.png'', Print (Download_failed ''https://cdn/out-0.png'' (HTTPError 404)),
       Get_url ''https://cdn/out-1.png'',
       Write ''generated_trading_assets/icon_20250101_120000_2.png'' ''PNG'',
       Print (Downloaded ''generated_trading_assets/icon_20250101_120000_2.png'')],
      [''generated_trading_assets/icon_20250101_120000_2.png''])"
  by (simp add: download_assets_def job_defs raise_for_status_def filepath_def path_join_def
        str_nat.simps Let_def)

subsection \<open>C8: an unknown status\<close>



subsection \<open>C9: prompt selection\<close>

text \<open>
  Claim C9 says that payload construction is total for every style and variation
  number, out-of-range variations included, falling back to a default prompt. The
  guard of \<open>generate_ai_analytics_icon\<close> tests the upper bound of the variation only:
  for variation \<open>-3\<close> it evaluates \<open>selected_prompts[-4]\<close> on a list of three prompts,
  which raises \<open>IndexError\<close>, and the method raises before any request is made.
\<close>

theorem negative_variation_raises:
  "select_prompt ''modern'' (- 3) = Inl IndexError
   \<and> generate_ai_analytics_icon w ''modern'' (- 3) = Inl IndexError"
  by (simp add: generate_ai_analytics_icon_def select_prompt_def dict_item_def dict_get_def
        prompts_def list_item_def)

subsection \<open>C10: success without output\<close>

text \<open>
  Claim C10: when the poll observes the status \<open>succeeded\<close> with an empty or absent
  list of output URIs, \<open>_poll_prediction\<close> returns \<open>None\<close> at once: the query that saw
  this answer is the last one, no output URI is requested, and the last event is the
  line that reports the missing output.
\<close>

theorem empty_success_is_failure:
  assumes "n < max_attempts" and "\<forall>i<n. \<not> terminal (polls j i)"
    and "polls j n = Response code d" and "\<not> raise_for_status code" and "status d = Some ''succeeded''"
    and "output_urls d = None \<or> output_urls d = Some []"
  shows "snd (poll_prediction g j pid prefix max_attempts) = None
       \<and> requested (fst (poll_prediction g j pid prefix max_attempts)) = []
       \<and> status_queries (fst (poll_prediction g j pid prefix max_attempts)) = Suc n
       \<and> last (fst (poll_prediction g j pid prefix max_attempts)) = Print (No_output_urls prefix)"
proof -
  from assms have "[n..<max_attempts] = n # [Suc n..<max_attempts]" by (simp add: upt_conv_Cons)
  with assms have "poll_attempts g j pid prefix max_attempts [n..<max_attempts]
      = ([Get_status pid, Print (No_output_urls prefix)], None)" by auto
  with poll_prediction_pending_prefix [of n max_attempts j g pid prefix] assms
  obtain pre where "fst (poll_prediction g j pid prefix max_attempts) = pre @ [Get_status pid, Print (No_output_urls prefix)]"
    "snd (poll_prediction g j pid prefix max_attempts) = None" "status_queries pre = n" "requested pre = []"
    by auto
  then show ?thesis by simp
qed

text \<open>A job that is \<open>processing\<close> once and then \<open>succeeded\<close> with an empty output list.\<close>

theorem empty_success_is_failure_witness:
  "snd (poll_prediction PremiumTradingAssetsGenerator empty_job ''p1'' ''icon'' 60) = None
       \<and> requested (fst (poll_prediction PremiumTradingAssetsGenerator empty_job ''p1'' ''icon'' 60)) = []
       \<and> status_queries (fst (poll_prediction PremiumTradingAssetsGenerator empty_job ''p1'' ''icon'' 60)) = Suc 1
       \<and> last (fst (poll_prediction PremiumTradingAssetsGenerator empty_job ''p1'' ''icon'' 60)) = Print (No_output_urls ''icon'')"
  using empty_success_is_failure [of 1 60 empty_job 200
      "\<lparr>status = Some ''succeeded'', output_urls = Some [], error = None\<rparr>"
      PremiumTradingAssetsGenerator "''p1''" "''icon''"]
  by (simp add: job_defs raise_for_status_def terminal_def)

end
